theory Spec2Isabelle
  imports Complex_Main
begin

section \<open>Elderly Monitor: the anomaly-detection core of app.py\<close>

text \<open>
  The development embeds the anomaly core of \<^verbatim>\<open>src/app.py\<close>: \<^verbatim>\<open>haversine\<close>,
  \<^verbatim>\<open>record_and_send_alert\<close>, \<^verbatim>\<open>compute_baselines\<close>, \<^verbatim>\<open>check_latest_for_user\<close> and
  \<^verbatim>\<open>periodic_check_all\<close>.

  Conventions of the embedding.
  \<^item> A stored Python float is the real number it denotes, and a decimal literal is the
    decimal; infinities and NaN are not stored. Sums, means, roots and the trigonometric
    functions are exact. The z-score of lines 143 and 155 is the exception: its subtraction
    and its division round to the nearest double as the program's do, since the rule
    compares the result with 3 exactly.
  \<^item> A \<^verbatim>\<open>datetime\<close> is the number of microseconds since the epoch (an integer), so that
    \<^verbatim>\<open>utcnow() - timedelta(days=n)\<close> is a subtraction and \<^verbatim>\<open>.hour\<close> a division. The
    clock \<^verbatim>\<open>datetime.utcnow()\<close> is the parameter \<open>now\<close> of every operation that reads it.
  \<^item> A Python \<^verbatim>\<open>str\<close> is a list of tokens: a token is one Unicode code point, or a
    number formatted by an f-string. A formatted number renders to a non-empty run of ASCII
    characters; the literals the program searches for consist of Hangul code points only,
    so a literal occurs in the rendered string exactly when its code points occur as
    adjacent tokens.
  \<^item> The SQLite tables are lists of rows in insertion order; the printed e-mails and
    text messages are collected in an outbox.
  \<^item> A raised exception is the left summand of the result.
\<close>

subsection \<open>Doubles\<close>

text \<open>
  The value of a float expression whose operands are finite: a finite double, or an
  infinity. (Python's float subtraction and division do not raise on overflow, and with
  finite operands and a divisor other than zero they give no NaN.)
\<close>

datatype fl = Fin real | PInf | NInf

definition pow2 :: "int \<Rightarrow> real" where
  "pow2 k = (if 0 \<le> k then 2 ^ nat k else 1 / 2 ^ nat (- k))"

text \<open>The binary exponent of a real other than zero: \<open>pow2 (binade x) \<le> \<bar>x\<bar> < pow2 (binade x + 1)\<close>.\<close>

definition binade :: "real \<Rightarrow> int" where
  "binade x = \<lfloor>log 2 \<bar>x\<bar>\<rfloor>"

text \<open>The nearest integer, a tie going to the even one.\<close>

definition round_even :: "real \<Rightarrow> int" where
  "round_even y =
     (let f = \<lfloor>y\<rfloor>; d = y - real_of_int f
      in if d < 1 / 2 then f
         else if 1 / 2 < d then f + 1
         else if even f then f else f + 1)"

text \<open>
  IEEE 754 binary64, round to nearest, ties to even: 53 significant bits, so the spacing of
  the doubles around \<open>x\<close> is \<open>pow2 (binade x - 52)\<close>, and \<open>pow2 (- 1074)\<close> below the smallest
  normal number; a result that reaches \<open>pow2 1024\<close> is the infinity of its sign.
\<close>

definition fl_round :: "real \<Rightarrow> fl" where
  "fl_round x =
     (if x = 0 then Fin 0
      else (let q = pow2 (max (binade x) (- 1022) - 52);
                r = real_of_int (round_even (x / q)) * q
            in if pow2 1024 \<le> \<bar>r\<bar> then (if 0 < x then PInf else NInf) else Fin r))"

text \<open>\<^verbatim>\<open>a - b\<close> on two finite floats.\<close>

definition fl_sub :: "real \<Rightarrow> real \<Rightarrow> fl" where
  "fl_sub a b = fl_round (a - b)"

text \<open>\<^verbatim>\<open>x / s\<close> by a finite float; the divisor is above zero at both places of the program
  that divide (lines 142 and 154 test it), so \<^verbatim>\<open>ZeroDivisionError\<close> has no branch.\<close>

definition fl_div :: "fl \<Rightarrow> real \<Rightarrow> fl" where
  "fl_div x s =
     (case x of
        Fin a \<Rightarrow> fl_round (a / s)
      | PInf \<Rightarrow> if 0 < s then PInf else NInf
      | NInf \<Rightarrow> if 0 < s then NInf else PInf)"

fun fl_abs :: "fl \<Rightarrow> fl" where
  "fl_abs (Fin x) = Fin \<bar>x\<bar>"
| "fl_abs PInf = PInf"
| "fl_abs NInf = PInf"

text \<open>\<^verbatim>\<open>z >= c\<close> and \<^verbatim>\<open>z > c\<close>.\<close>

fun fl_le :: "real \<Rightarrow> fl \<Rightarrow> bool" where
  "fl_le c (Fin x) = (c \<le> x)"
| "fl_le c PInf = True"
| "fl_le c NInf = False"

fun fl_less :: "real \<Rightarrow> fl \<Rightarrow> bool" where
  "fl_less c (Fin x) = (c < x)"
| "fl_less c PInf = True"
| "fl_less c NInf = False"

subsection \<open>Strings\<close>

datatype tok =
    Ch nat                \<comment> \<open>one code point\<close>
  | FloatRepr real        \<comment> \<open>\<^verbatim>\<open>{x}\<close> for a float\<close>
  | FloatFixed nat fl     \<comment> \<open>\<^verbatim>\<open>{x:.nf}\<close>\<close>
  | IntRepr int           \<comment> \<open>\<^verbatim>\<open>{n}\<close> for an int\<close>

type_synonym pystr = "tok list"

definition lit :: "nat list \<Rightarrow> pystr" where
  "lit cs = map Ch cs"

fun startswith :: "'a list \<Rightarrow> 'a list \<Rightarrow> bool" where
  "startswith s [] = True"
| "startswith [] (p # ps) = False"
| "startswith (c # cs) (p # ps) = (c = p \<and> startswith cs ps)"

text \<open>\<^verbatim>\<open>sub in s\<close> on strings.\<close>

fun contains :: "'a list \<Rightarrow> 'a list \<Rightarrow> bool" where
  "contains [] sub = (sub = [])"
| "contains (c # cs) sub = (startswith (c # cs) sub \<or> contains cs sub)"

text \<open>\<^verbatim>\<open>sep.join(parts)\<close>.\<close>

fun join :: "pystr \<Rightarrow> pystr list \<Rightarrow> pystr" where
  "join sep [] = []"
| "join sep [s] = s"
| "join sep (s # t # ss) = s @ sep @ join sep (t # ss)"

text \<open>Truthiness of an optional float (\<^verbatim>\<open>None\<close> and \<^verbatim>\<open>0.0\<close> are falsy) and of an
  optional string (\<^verbatim>\<open>None\<close> and the empty string are falsy).\<close>

definition truthy_float :: "real option \<Rightarrow> bool" where
  "truthy_float v = (case v of None \<Rightarrow> False | Some x \<Rightarrow> x \<noteq> 0)"

definition truthy_str :: "pystr option \<Rightarrow> bool" where
  "truthy_str v = (case v of None \<Rightarrow> False | Some s \<Rightarrow> s \<noteq> [])"

text \<open>\<^verbatim>\<open>int(x)\<close> on a float truncates towards zero.\<close>

definition py_int :: "real \<Rightarrow> int" where
  "py_int x = (if 0 \<le> x then \<lfloor>x\<rfloor> else \<lceil>x\<rceil>)"

datatype error = TypeError

subsection \<open>The database models\<close>

text \<open>
  \<^verbatim>\<open>api_upload_sensor\<close> coerces \<^verbatim>\<open>water_l\<close>, \<^verbatim>\<open>gas_m3\<close>, \<^verbatim>\<open>motion\<close> and \<^verbatim>\<open>door_open\<close> with
  \<^verbatim>\<open>float()\<close> and \<^verbatim>\<open>int()\<close> and always sets the timestamp, so a stored reading has them;
  its coordinates are stored as given and may be \<^verbatim>\<open>None\<close>. The columns of \<^verbatim>\<open>User\<close> other
  than \<^verbatim>\<open>id\<close> and \<^verbatim>\<open>name\<close> are nullable, \<^verbatim>\<open>geofence_m\<close> included: its default of 500 is
  what an insert without a value stores, not a constraint on the rows.

  \<^verbatim>\<open>api_create_user\<close> passes \<^verbatim>\<open>geofence_m\<close> on as the request gives it, and the column is an
  INTEGER column of SQLite, which keeps a text that is no number as text: a stored radius
  is an integer, a float or a string.
\<close>

datatype radius = IntVal int | FloatVal real | StrVal pystr

text \<open>The number a radius is compared as; a string has none, and comparing a float with
  it raises.\<close>

fun radius_number :: "radius \<Rightarrow> real option" where
  "radius_number (IntVal g) = Some (real_of_int g)"
| "radius_number (FloatVal g) = Some g"
| "radius_number (StrVal s) = None"

text \<open>\<^verbatim>\<open>{user.geofence_m}\<close> in an f-string.\<close>

fun radius_repr :: "radius \<Rightarrow> pystr" where
  "radius_repr (IntVal g) = [IntRepr g]"
| "radius_repr (FloatVal g) = [FloatRepr g]"
| "radius_repr (StrVal s) = s"

record user =
  u_id :: int
  name :: pystr
  phone :: "pystr option"
  email :: "pystr option"
  home_lat :: "real option"
  home_lon :: "real option"
  geofence_m :: "radius option"
  created_at :: int

record sensor_reading =
  r_id :: int
  r_user_id :: int
  r_timestamp :: int
  lat :: "real option"
  lon :: "real option"
  water_l :: real
  gas_m3 :: real
  motion :: int
  door_open :: int
  meta :: pystr

record alert =
  a_user_id :: int
  a_timestamp :: int
  alert_type :: pystr
  a_details :: pystr
  sent_to :: pystr

datatype notification =
    Email pystr pystr pystr   \<comment> \<open>\<^verbatim>\<open>send_email(to_email, subject, body)\<close>\<close>
  | Sms pystr pystr           \<comment> \<open>\<^verbatim>\<open>send_sms(to_phone, message)\<close>\<close>

record store =
  users :: "user list"
  readings :: "sensor_reading list"
  alerts :: "alert list"
  outbox :: "notification list"

text \<open>\<^verbatim>\<open>User.query.get(user_id)\<close>.\<close>

definition get_user :: "store \<Rightarrow> int \<Rightarrow> user option" where
  "get_user db user_id = find (\<lambda>u. u_id u = user_id) (users db)"

text \<open>\<^verbatim>\<open>SensorReading.query.filter_by(user_id=user_id).order_by(timestamp.desc()).first()\<close>;
  among rows of equal timestamp the earliest inserted is taken.\<close>

fun latest_of :: "sensor_reading list \<Rightarrow> sensor_reading option" where
  "latest_of [] = None"
| "latest_of (r # rs) =
     (case latest_of rs of
        None \<Rightarrow> Some r
      | Some r' \<Rightarrow> if r_timestamp r < r_timestamp r' then Some r' else Some r)"

definition latest_reading :: "store \<Rightarrow> int \<Rightarrow> sensor_reading option" where
  "latest_reading db user_id = latest_of (filter (\<lambda>r. r_user_id r = user_id) (readings db))"

definition hour :: "int \<Rightarrow> int" where
  "hour t = (t div 3600000000) mod 24"

definition timedelta_days :: "int \<Rightarrow> int" where
  "timedelta_days n = n * 86400000000"

subsection \<open>Geodesy\<close>

definition radians :: "real \<Rightarrow> real" where
  "radians x = x * pi / 180"

definition haversine :: "real \<Rightarrow> real \<Rightarrow> real \<Rightarrow> real \<Rightarrow> real" where
  "haversine lat1 lon1 lat2 lon2 =
     (let R = 6371000;
          phi1 = radians lat1; phi2 = radians lat2;
          dphi = radians (lat2 - lat1);
          dlambda = radians (lon2 - lon1);
          a = (sin (dphi / 2))\<^sup>2 + cos phi1 * cos phi2 * (sin (dlambda / 2))\<^sup>2
      in 2 * R * arcsin (sqrt a))"

subsection \<open>Alerts\<close>

definition subject_prefix :: pystr where
  "subject_prefix = lit [91, 50508, 47548, 93, 32]"

definition record_and_send_alert :: "store \<Rightarrow> int \<Rightarrow> int \<Rightarrow> pystr \<Rightarrow> pystr \<Rightarrow> store" where
  "record_and_send_alert db now user_id atype dtl =
     (let usr = get_user db user_id;
          emails = (case usr of
                      None \<Rightarrow> []
                    | Some u \<Rightarrow> if truthy_str (email u) then [the (email u)] else []);
          phones = (case usr of
                      None \<Rightarrow> []
                    | Some u \<Rightarrow> if truthy_str (phone u) then [the (phone u)] else []);
          sent = emails @ phones;
          a = \<lparr>a_user_id = user_id, a_timestamp = now, alert_type = atype,
               a_details = dtl, sent_to = join (lit [44]) sent\<rparr>
      in db\<lparr>alerts := alerts db @ [a],
             outbox := outbox db
               @ map (\<lambda>e. Email e (subject_prefix @ atype) dtl) emails
               @ map (\<lambda>p. Sms p dtl) phones\<rparr>)"

subsection \<open>Baselines\<close>

record stats =
  mean :: real
  std :: real

text \<open>\<^verbatim>\<open>Series.mean()\<close> and \<^verbatim>\<open>Series.std(ddof=0)\<close> of pandas, as pandas computes them: the
  sum over the count, and the root of the summed squared distances to that average over
  the count less \<^verbatim>\<open>ddof\<close>.\<close>

definition series_mean :: "real list \<Rightarrow> real" where
  "series_mean xs = sum_list xs / real (length xs)"

definition series_std :: "nat \<Rightarrow> real list \<Rightarrow> real" where
  "series_std ddof xs =
     sqrt (sum_list (map (\<lambda>x. (series_mean xs - x)\<^sup>2) xs) / real (length xs - ddof))"

definition column :: "string \<Rightarrow> sensor_reading list \<Rightarrow> real list" where
  "column m rows =
     (if m = ''water_l'' then map water_l rows
      else if m = ''gas_m3'' then map gas_m3 rows
      else map (\<lambda>r. real_of_int (motion r)) rows)"

definition window_rows :: "store \<Rightarrow> int \<Rightarrow> int \<Rightarrow> int \<Rightarrow> sensor_reading list" where
  "window_rows db now user_id lookback_days =
     (let since = now - timedelta_days lookback_days
      in filter (\<lambda>r. r_user_id r = user_id \<and> since \<le> r_timestamp r) (readings db))"

definition compute_baselines :: "store \<Rightarrow> int \<Rightarrow> int \<Rightarrow> int \<Rightarrow> (string \<rightharpoonup> stats)" where
  "compute_baselines db now user_id lookback_days =
     (let rows = window_rows db now user_id lookback_days
      in if rows = [] then Map.empty
         else fold (\<lambda>m baselines.
                 baselines(m \<mapsto> \<lparr>mean = series_mean (column m rows),
                                 std = (if 1 < length (column m rows)
                                        then series_std 0 (column m rows) else 0)\<rparr>))
               [''water_l'', ''gas_m3'', ''motion''] Map.empty)"

subsection \<open>The rule evaluator\<close>

record eval_state =
  details :: "pystr list"
  high_risk :: bool

definition append_detail :: "pystr \<Rightarrow> eval_state \<Rightarrow> eval_state" where
  "append_detail s st = st\<lparr>details := details st @ [s]\<rparr>"

definition has_std :: "(string \<rightharpoonup> stats) \<Rightarrow> string \<Rightarrow> bool" where
  "has_std baselines m = (case baselines m of None \<Rightarrow> False | Some b \<Rightarrow> 0 < std b)"

text \<open>\<^verbatim>\<open>baselines.get(m, {}).get('mean', 0)\<close>.\<close>

definition mean_or_0 :: "(string \<rightharpoonup> stats) \<Rightarrow> string \<Rightarrow> real" where
  "mean_or_0 baselines m = (case baselines m of None \<Rightarrow> 0 | Some b \<Rightarrow> mean b)"

text \<open>
  The texts of the findings, as the f-strings of the program build them. The literal parts
  are written as decimal Unicode code points, in the order of the source; 32 is the space,
  58 the colon, 61 the equals sign, 76 and 109 the units L and m, 179 the superscript three.
  The two words the composite rule looks for are U+AE09 U+C99D (44553 51613, "surge") and
  U+C774 U+C0C1 (51060 49345, "anomaly"). The water and gas deviation texts and both motion
  texts contain the second; the two spike texts contain the first; the
  geofence text holds U+C774 U+D0C8 (51060 53448, "departure") and neither word.
\<close>

definition water_deviation_text :: "real \<Rightarrow> real \<Rightarrow> fl \<Rightarrow> pystr" where
  "water_deviation_text w m z =
     lit [49688, 46020, 32, 49324, 50857, 47049, 32, 51060, 49345, 58, 32, 52572, 44540, 61]
     @ [FloatRepr w] @ lit [76, 44, 32, 54217, 44512, 61]
     @ [FloatFixed 1 (Fin m)] @ lit [76, 44, 32, 122, 61] @ [FloatFixed 2 z]"

definition water_spike_text :: "real \<Rightarrow> pystr" where
  "water_spike_text w =
     lit [49688, 46020, 32, 49324, 50857, 32, 44553, 51613, 58, 32]
     @ [FloatRepr w]
     @ lit [76, 32, 40, 54217, 49548, 32, 44144, 51032, 32, 49324, 50857, 32, 50630, 51020, 41]"

definition gas_deviation_text :: "real \<Rightarrow> real \<Rightarrow> fl \<Rightarrow> pystr" where
  "gas_deviation_text g m z =
     lit [44032, 49828, 32, 49324, 50857, 47049, 32, 51060, 49345, 58, 32, 52572, 44540, 61]
     @ [FloatRepr g] @ lit [109, 179, 44, 32, 54217, 44512, 61]
     @ [FloatFixed 2 (Fin m)] @ lit [109, 179, 44, 32, 122, 61] @ [FloatFixed 2 z]"

definition gas_spike_text :: "real \<Rightarrow> pystr" where
  "gas_spike_text g =
     lit [44032, 49828, 32, 49324, 50857, 32, 44553, 51613, 58, 32]
     @ [FloatRepr g]
     @ lit [109, 179, 32, 40, 54217, 49548, 32, 44144, 51032, 32, 49324, 50857, 32, 50630,
            51020, 41]"

definition motion_absent_text :: pystr where
  "motion_absent_text =
     lit [54876, 46041, 32, 51060, 49345, 40, 54217, 49548, 32, 54876, 46041, 51201, 51060,
          45208, 32, 54788, 51116, 32, 47924, 54876, 46041, 41]"

definition motion_unexpected_text :: pystr where
  "motion_unexpected_text =
     lit [54876, 46041, 32, 51060, 49345, 40, 54217, 49548, 32, 44144, 51032, 32, 50630,
          51020, 50640, 46020, 32, 54788, 51116, 32, 54876, 46041, 32, 44048, 51648, 41]"

definition geofence_text :: "real \<Rightarrow> radius \<Rightarrow> pystr" where
  "geofence_text d v =
     lit [51648, 50724, 54172, 49828, 32, 51060, 53448, 58, 32, 44144, 47532, 32]
     @ [IntRepr (py_int d)] @ lit [109, 32, 40, 49444, 51221, 32]
     @ radius_repr v @ lit [109, 41]"

text \<open>The two literals of the composite rule.\<close>

definition spike_word :: pystr where
  "spike_word = lit [44553, 51613]"

definition anomaly_word :: pystr where
  "anomaly_word = lit [51060, 49345]"

text \<open>Lines 142 to 151: water.\<close>

definition water_check :: "(string \<rightharpoonup> stats) \<Rightarrow> sensor_reading \<Rightarrow> eval_state \<Rightarrow> eval_state" where
  "water_check baselines rd st =
     (if has_std baselines ''water_l'' then
        (let b = the (baselines ''water_l'');
             z = fl_div (fl_sub (water_l rd) (mean b)) (std b)
         in if fl_le 3 (fl_abs z)
            then (let st' = append_detail (water_deviation_text (water_l rd) (mean b) z) st
                  in if fl_less 3 z then st'\<lparr>high_risk := True\<rparr> else st')
            else st)
      else if mean_or_0 baselines ''water_l'' < 0.1 \<and> 5 < water_l rd
        then (append_detail (water_spike_text (water_l rd)) st)\<lparr>high_risk := True\<rparr>
        else st)"

text \<open>Lines 154 to 163: gas.\<close>

definition gas_check :: "(string \<rightharpoonup> stats) \<Rightarrow> sensor_reading \<Rightarrow> eval_state \<Rightarrow> eval_state" where
  "gas_check baselines rd st =
     (if has_std baselines ''gas_m3'' then
        (let b = the (baselines ''gas_m3'');
             z = fl_div (fl_sub (gas_m3 rd) (mean b)) (std b)
         in if fl_le 3 (fl_abs z)
            then (let st' = append_detail (gas_deviation_text (gas_m3 rd) (mean b) z) st
                  in if fl_less 3 z then st'\<lparr>high_risk := True\<rparr> else st')
            else st)
      else if mean_or_0 baselines ''gas_m3'' < 0.01 \<and> 0.1 < gas_m3 rd
        then (append_detail (gas_spike_text (gas_m3 rd)) st)\<lparr>high_risk := True\<rparr>
        else st)"

text \<open>Lines 166 to 171: motion.\<close>

definition motion_check :: "(string \<rightharpoonup> stats) \<Rightarrow> sensor_reading \<Rightarrow> eval_state \<Rightarrow> eval_state" where
  "motion_check baselines rd st =
     (case baselines ''motion'' of
        None \<Rightarrow> st
      | Some b \<Rightarrow>
          (let st1 = (if 0.5 \<le> mean b \<and> motion rd = 0
                      then append_detail motion_absent_text st else st)
           in if mean b < 0.2 \<and> motion rd = 1
              then append_detail motion_unexpected_text st1 else st1))"

text \<open>The guard of lines 174 and 182: four truthiness tests.\<close>

definition coords_truthy :: "user \<Rightarrow> sensor_reading \<Rightarrow> bool" where
  "coords_truthy u rd =
     (truthy_float (lat rd) \<and> truthy_float (lon rd)
      \<and> truthy_float (home_lat u) \<and> truthy_float (home_lon u))"

definition distance_home :: "user \<Rightarrow> sensor_reading \<Rightarrow> real" where
  "distance_home u rd =
     haversine (the (lat rd)) (the (lon rd)) (the (home_lat u)) (the (home_lon u))"

text \<open>The radius as a number; comparing a float with \<^verbatim>\<open>None\<close> or with a string raises.\<close>

definition radius_of :: "user \<Rightarrow> real option" where
  "radius_of u = (case geofence_m u of None \<Rightarrow> None | Some v \<Rightarrow> radius_number v)"

text \<open>Lines 174 to 179: the geofence.\<close>

definition geofence_check :: "user \<Rightarrow> sensor_reading \<Rightarrow> eval_state \<Rightarrow> error + eval_state" where
  "geofence_check u rd st =
     (if coords_truthy u rd then
        (let d = distance_home u rd
         in case radius_of u of
              None \<Rightarrow> Inl TypeError
            | Some g \<Rightarrow>
                if g < d
                then (let st' = append_detail (geofence_text d (the (geofence_m u))) st
                      in if 23 \<le> hour (r_timestamp rd) \<or> hour (r_timestamp rd) < 6
                         then Inr (st'\<lparr>high_risk := True\<rparr>) else Inr st')
                else Inr st)
      else Inr st)"

text \<open>Lines 182 to 186: the composite rule.\<close>

definition composite_check :: "user \<Rightarrow> sensor_reading \<Rightarrow> eval_state \<Rightarrow> error + eval_state" where
  "composite_check u rd st =
     (if coords_truthy u rd then
        (let d = distance_home u rd
         in case radius_of u of
              None \<Rightarrow> Inl TypeError
            | Some g \<Rightarrow>
                (let at_home = (d \<le> g)
                 in if at_home
                       \<and> list_ex (\<lambda>s. contains s spike_word \<or> contains s anomaly_word) (details st)
                    then Inr (st\<lparr>high_risk := True\<rparr>) else Inr st))
      else Inr st)"

text \<open>Lines 137 to 186: the five checks in order, from no finding and no risk.\<close>

definition evaluate :: "user \<Rightarrow> sensor_reading \<Rightarrow> (string \<rightharpoonup> stats) \<Rightarrow> error + eval_state" where
  "evaluate u rd baselines =
     (let st0 = \<lparr>details = [], high_risk = False\<rparr>;
          st1 = water_check baselines rd st0;
          st2 = gas_check baselines rd st1;
          st3 = motion_check baselines rd st2
      in case geofence_check u rd st3 of
           Inl e \<Rightarrow> Inl e
         | Inr st4 \<Rightarrow> composite_check u rd st4)"

text \<open>Lines 188 to 191.\<close>

definition level_suffix :: pystr where
  "level_suffix = lit [32, 51060, 49345, 51669, 54980]"

definition level_of :: "bool \<Rightarrow> pystr" where
  "level_of hr = (if hr then lit [72, 73, 71, 72] else lit [76, 79, 87])"

definition dispatch :: "store \<Rightarrow> int \<Rightarrow> int \<Rightarrow> pystr list \<Rightarrow> bool \<Rightarrow> store" where
  "dispatch db now user_id ds hr =
     (if ds \<noteq> [] then
        (let level = level_of hr;
             rec = join (lit [59, 32]) ds
         in record_and_send_alert db now user_id (level @ level_suffix) rec)
      else db)"

definition check_latest_for_user :: "store \<Rightarrow> int \<Rightarrow> int \<Rightarrow> error + store" where
  "check_latest_for_user db now user_id =
     (case get_user db user_id of
        None \<Rightarrow> Inr db
      | Some u \<Rightarrow>
          (case latest_reading db user_id of
             None \<Rightarrow> Inr db
           | Some rd \<Rightarrow>
               (case evaluate u rd (compute_baselines db now user_id 14) of
                  Inl e \<Rightarrow> Inl e
                | Inr st \<Rightarrow> Inr (dispatch db now user_id (details st) (high_risk st)))))"

subsection \<open>The scheduler\<close>

text \<open>The loop of \<^verbatim>\<open>periodic_check_all\<close> over the users read at its start. The result is
  the store as the loop leaves it, and the exception that ended it, if one did.
  \<^verbatim>\<open>User.query.all()\<close> has no ordering clause and SQLite scans the table by its primary key:
  the users come in the order of their ids.\<close>

fun sweep :: "store \<Rightarrow> int \<Rightarrow> user list \<Rightarrow> store \<times> error option" where
  "sweep db now [] = (db, None)"
| "sweep db now (u # us) =
     (case check_latest_for_user db now (u_id u) of
        Inl e \<Rightarrow> (db, Some e)
      | Inr db' \<Rightarrow> sweep db' now us)"

definition periodic_check_all :: "store \<Rightarrow> int \<Rightarrow> store \<times> error option" where
  "periodic_check_all db now = sweep db now (sort_key u_id (users db))"

subsection \<open>Example data\<close>

text \<open>A reading as \<^verbatim>\<open>api_upload_sensor\<close> stores it, the door closed and no metadata.\<close>

definition mk_reading ::
  "int \<Rightarrow> int \<Rightarrow> int \<Rightarrow> real option \<Rightarrow> real option \<Rightarrow> real \<Rightarrow> real \<Rightarrow> int \<Rightarrow> sensor_reading" where
  "mk_reading i uid t la lo w g m =
     \<lparr>r_id = i, r_user_id = uid, r_timestamp = t, lat = la, lon = lo, water_l = w,
      gas_m3 = g, motion = m, door_open = 0, meta = lit [123, 125]\<rparr>"

definition alice :: user where
  "alice = \<lparr>u_id = 1, name = lit [65], phone = Some (lit [48, 49, 48]),
            email = Some (lit [97, 64, 98]), home_lat = Some 37.5, home_lon = Some 127,
            geofence_m = Some (IntVal 300), created_at = 0\<rparr>"

text \<open>Day 20 after the epoch, at midnight.\<close>

definition now0 :: int where
  "now0 = 1728000000000"

text \<open>Alice at home on day 19: active at 00:00, still at 02:00, no water or gas used.\<close>

definition quiet_last :: sensor_reading where
  "quiet_last = mk_reading 2 1 1648800000000 (Some 37.5) (Some 127) 0 0 0"

definition quiet_store :: store where
  "quiet_store =
     \<lparr>users = [alice],
      readings = [mk_reading 1 1 1641600000000 (Some 37.5) (Some 127) 0 0 1, quiet_last],
      alerts = [], outbox = []\<rparr>"

text \<open>Alice with a single reading, of day 1: six litres of water, no position.\<close>

definition stale_last :: sensor_reading where
  "stale_last = mk_reading 1 1 86400000000 None None 6 0 0"


text \<open>Alice 0.01 degrees north of her home at 02:00 and at 12:00 of day 19.\<close>

definition night_walk :: sensor_reading where
  "night_walk = mk_reading 3 1 1648800000000 (Some 37.51) (Some 127) 0 0 1"

definition noon_walk :: sensor_reading where
  "noon_walk = mk_reading 4 1 1684800000000 (Some 37.51) (Some 127) 0 0 1"

text \<open>A home on the prime meridian, and a reading 0.1 degrees north of it.\<close>

definition greenwich :: user where
  "greenwich = \<lparr>u_id = 2, name = lit [71], phone = None, email = None,
                home_lat = Some 51.5, home_lon = Some 0, geofence_m = Some (IntVal 300),
                created_at = 0\<rparr>"

definition meridian_last :: sensor_reading where
  "meridian_last = mk_reading 1 2 1648800000000 (Some 51.6) (Some 0) 0 0 1"

definition meridian_store :: store where
  "meridian_store =
     \<lparr>users = [greenwich], readings = [meridian_last], alerts = [], outbox = []\<rparr>"

text \<open>A reading of a subject 3, at 02:00 of day 19.\<close>

definition bob_last :: sensor_reading where
  "bob_last = mk_reading 3 3 1648800000000 (Some 37.5) (Some 127) 0 0 0"

text \<open>
  Two subjects as the program's routes store them. Erin is created first, with a home and
  the radius "abc" (97 98 99), and has one reading, at her home at 02:00 of day 19. Frank
  is created second, without a home, and has one reading, of day 1, with six litres of
  water.
\<close>

definition erin :: user where
  "erin = \<lparr>u_id = 1, name = lit [69], phone = None, email = None,
           home_lat = Some 37.5, home_lon = Some 127,
           geofence_m = Some (StrVal (lit [97, 98, 99])), created_at = 0\<rparr>"

definition erin_last :: sensor_reading where
  "erin_last = mk_reading 1 1 1648800000000 (Some 37.5) (Some 127) 0 0 0"

definition frank :: user where
  "frank = \<lparr>u_id = 2, name = lit [70], phone = None, email = None,
            home_lat = None, home_lon = None, geofence_m = Some (IntVal 500),
            created_at = 0\<rparr>"

definition frank_last :: sensor_reading where
  "frank_last = mk_reading 2 2 86400000000 None None 6 0 0"

definition sweep_store :: store where
  "sweep_store =
     \<lparr>users = [erin, frank], readings = [erin_last, frank_last], alerts = [], outbox = []\<rparr>"











definition st0 :: eval_state where
  "st0 = \<lparr>details = [], high_risk = False\<rparr>"

text \<open>Two readings of day 19 with water 1 and 3, gas 2 and 2, motion 0 and 1.\<close>

definition pair_store :: store where
  "pair_store =
     \<lparr>users = [alice],
      readings = [mk_reading 1 1 1641600000000 None None 1 2 0,
                  mk_reading 2 1 1648800000000 None None 3 2 1,
                  stale_last],
      alerts = [], outbox = []\<rparr>"

text \<open>The recipient of a notification.\<close>

fun recipient :: "notification \<Rightarrow> pystr" where
  "recipient (Email to_email subj body) = to_email"
| "recipient (Sms to_phone message) = to_phone"

text \<open>The spec's words for the baseline statistics: the arithmetic mean, and the
  population standard deviation, which divides by the number of samples.\<close>

definition arithmetic_mean :: "real list \<Rightarrow> real" where
  "arithmetic_mean xs = (\<Sum>x\<leftarrow>xs. x) / real (length xs)"

definition population_std :: "real list \<Rightarrow> real" where
  "population_std xs =
     sqrt ((\<Sum>x\<leftarrow>xs. (x - arithmetic_mean xs)\<^sup>2) / real (length xs))"

section \<open>Properties\<close>

subsection \<open>Rounding to a double\<close>

lemma pow2_powr: "pow2 k = 2 powr real_of_int k"
  by (simp add: pow2_def powr_int)




lemma pow2_mono: "j \<le> k \<Longrightarrow> pow2 j \<le> pow2 k"
  by (simp add: pow2_powr)









subsection \<open>Distances along a meridian\<close>

lemma abs_sin_eq: "\<bar>x\<bar> \<le> pi \<Longrightarrow> \<bar>sin x\<bar> = sin \<bar>x\<bar>" for x :: real
proof (cases "0 \<le> x")
  case True
  assume "\<bar>x\<bar> \<le> pi"
  with True have "0 \<le> sin x" by (intro sin_ge_zero) auto
  with True show ?thesis by simp
next
  case False
  assume "\<bar>x\<bar> \<le> pi"
  with False have "0 \<le> sin (- x)" by (intro sin_ge_zero) auto
  with False show ?thesis by simp
qed

lemma haversine_meridian:
  assumes "\<bar>lat2 - lat1\<bar> \<le> 180"
  shows "haversine lat1 lon1 lat2 lon1 = 6371000 * \<bar>radians (lat2 - lat1)\<bar>"
proof -
  let ?x = "radians (lat2 - lat1) / 2"
  have "\<bar>(lat2 - lat1) * pi\<bar> \<le> 180 * pi"
    using assms pi_ge_zero by (simp add: abs_mult mult_right_mono)
  then have x: "\<bar>?x\<bar> \<le> pi / 2"
    by (simp add: radians_def)
  have "arcsin (sqrt ((sin ?x)\<^sup>2)) = arcsin (sin \<bar>?x\<bar>)"
    using x pi_ge_zero by (simp add: abs_sin_eq del: abs_divide)
  also have "\<dots> = \<bar>?x\<bar>"
    using x by (intro arcsin_sin) auto
  finally have "arcsin (sqrt ((sin ?x)\<^sup>2)) = \<bar>?x\<bar>" .
  then show ?thesis
    by (simp add: haversine_def Let_def radians_def)
qed

subsection \<open>The domain of the square root and the arc sine\<close>

lemma half_angle_sin: "(sin (x / 2))\<^sup>2 = (1 - cos x) / 2" for x :: real
  using cos_double_sin [of "x / 2"] by simp

lemma convex_unit:
  fixes t A B :: real
  assumes "0 \<le> t" "t \<le> 1" "0 \<le> A" "A \<le> 1" "0 \<le> B" "B \<le> 1"
  shows "0 \<le> (1 - t) * A + t * B" and "(1 - t) * A + t * B \<le> 1"
proof -
  show "0 \<le> (1 - t) * A + t * B"
    using assms by simp
  have "(1 - t) * A \<le> (1 - t) * 1" "t * B \<le> t * 1"
    using assms by (intro mult_left_mono; simp)+
  then show "(1 - t) * A + t * B \<le> 1"
    by simp
qed

text \<open>\<^verbatim>\<open>math.sqrt\<close> and \<^verbatim>\<open>math.asin\<close> raise outside their domains. The argument the
  program gives them is always from 0 to 1, so \<^verbatim>\<open>haversine\<close> has no such branch.\<close>

lemma haversine_argument_range:
  fixes lat1 lon1 lat2 lon2 :: real
  defines "a \<equiv> (sin (radians (lat2 - lat1) / 2))\<^sup>2
              + cos (radians lat1) * cos (radians lat2) * (sin (radians (lon2 - lon1) / 2))\<^sup>2"
  shows "0 \<le> a \<and> a \<le> 1 \<and> 0 \<le> sqrt a \<and> sqrt a \<le> 1"
proof -
  define p1 p2 t where "p1 = radians lat1" and "p2 = radians lat2"
    and "t = (sin (radians (lon2 - lon1) / 2))\<^sup>2"
  define A B where "A = (1 - cos (p2 - p1)) / 2" and "B = (1 + cos (p1 + p2)) / 2"
  have d: "radians (lat2 - lat1) = p2 - p1"
    by (simp add: radians_def p1_def p2_def field_simps)
  have t: "0 \<le> t" "t \<le> 1"
    using abs_sin_le_one [of "radians (lon2 - lon1) / 2"]
    by (simp_all add: t_def abs_square_le_1)
  have A: "0 \<le> A" "A \<le> 1"
    by (simp_all add: A_def)
  have "0 \<le> 1 + cos (p1 + p2)"
    using cos_ge_minus_one [of "p1 + p2"] by linarith
  then have B: "0 \<le> B" "B \<le> 1"
    by (simp_all add: B_def)
  have cc: "cos p1 * cos p2 = B - A"
    by (simp add: A_def B_def cos_diff cos_add field_simps)
  have "a = (sin ((p2 - p1) / 2))\<^sup>2 + cos p1 * cos p2 * t"
    unfolding a_def d p1_def [symmetric] p2_def [symmetric] t_def [symmetric] ..
  also have "\<dots> = A + (B - A) * t"
    by (simp add: half_angle_sin cc A_def)
  finally have a: "a = (1 - t) * A + t * B"
    by (simp add: algebra_simps)
  have "0 \<le> a" "a \<le> 1"
    unfolding a using convex_unit [OF t A B] by simp_all
  then show ?thesis
    by (simp add: real_sqrt_le_1_iff)
qed

subsection \<open>Missing subject or reading\<close>

text \<open>
  C7. If the subject is not in the store, or has no reading at all,
  \<^verbatim>\<open>check_latest_for_user\<close> returns normally and leaves the whole store as it was: no
  alert is inserted and nothing is sent.
\<close>

theorem check_latest_missing:
  "get_user db user_id = None \<or> latest_reading db user_id = None
   \<Longrightarrow> check_latest_for_user db now user_id = Inr db"
  by (auto simp: check_latest_for_user_def split: option.splits)

theorem check_latest_missing_witness:
  "check_latest_for_user \<lparr>users = [alice], readings = [bob_last], alerts = [], outbox = []\<rparr> now0 1
     = Inr \<lparr>users = [alice], readings = [bob_last], alerts = [], outbox = []\<rparr>
   \<and> check_latest_for_user \<lparr>users = [alice], readings = [bob_last], alerts = [], outbox = []\<rparr> now0 3
     = Inr \<lparr>users = [alice], readings = [bob_last], alerts = [], outbox = []\<rparr>"
proof -
  let ?db = "\<lparr>users = [alice], readings = [bob_last], alerts = [], outbox = []\<rparr>"
  have "latest_reading ?db 1 = None"
    by (simp add: latest_reading_def bob_last_def mk_reading_def)
  moreover have "get_user ?db 3 = None"
    by (simp add: get_user_def alice_def)
  ultimately show ?thesis
    using check_latest_missing [of ?db 1 now0] check_latest_missing [of ?db 3 now0]
    by simp
qed

subsection \<open>Deviation from the baseline\<close>





subsection \<open>The geofence\<close>

text \<open>
  C4. When the geofence check runs (the four coordinates pass the guard) for a subject
  with a radius, and \<open>d\<close> is the distance it computes: it appends the geofence finding
  exactly when \<open>d\<close> exceeds the radius, and it raises the risk flag exactly when that
  happens and the hour of the reading is 23 or above, or below 6. With the hour from 6 to
  22 the finding is appended and the flag stays as it was. The hour is always from 0 to 23.
\<close>

theorem geofence_rule:
  "coords_truthy u rd \<Longrightarrow> geofence_m u = Some (IntVal g) \<Longrightarrow>
   (\<exists>st'. geofence_check u rd st = Inr st'
      \<and> details st'
          = details st @ (if real_of_int g < distance_home u rd
                          then [geofence_text (distance_home u rd) (IntVal g)] else [])
      \<and> high_risk st'
          = (high_risk st \<or> (real_of_int g < distance_home u rd
                \<and> (23 \<le> hour (r_timestamp rd) \<or> hour (r_timestamp rd) < 6))))
   \<and> 0 \<le> hour (r_timestamp rd) \<and> hour (r_timestamp rd) < 24"
  by (auto simp: geofence_check_def radius_of_def append_detail_def Let_def hour_def)

lemma walk_distance:
  "distance_home alice night_walk = 6371000 * (pi / 18000)"
  "distance_home alice noon_walk = 6371000 * (pi / 18000)"
  by (simp_all add: distance_home_def alice_def night_walk_def noon_walk_def mk_reading_def
      haversine_meridian radians_def)

lemma walk_beyond_radius: "300 < 6371000 * (pi / 18000)"
  using pi_ge_two by simp

theorem geofence_rule_witness:
  "geofence_check alice night_walk st0
     = Inr \<lparr>details = [geofence_text (distance_home alice night_walk) (IntVal 300)],
            high_risk = True\<rparr>
   \<and> geofence_check alice noon_walk st0
     = Inr \<lparr>details = [geofence_text (distance_home alice noon_walk) (IntVal 300)],
            high_risk = False\<rparr>"
proof -
  have c: "coords_truthy alice night_walk" "coords_truthy alice noon_walk"
    by (simp_all add: coords_truthy_def truthy_float_def alice_def night_walk_def
        noon_walk_def mk_reading_def)
  have g: "geofence_m alice = Some (IntVal 300)"
    by (simp add: alice_def)
  have h: "hour (r_timestamp night_walk) = 2" "hour (r_timestamp noon_walk) = 12"
    by (simp_all add: hour_def night_walk_def noon_walk_def mk_reading_def)
  show ?thesis
    using geofence_rule [OF c(1) g, of st0] geofence_rule [OF c(2) g, of st0]
      walk_beyond_radius
    by (auto simp: h walk_distance st0_def eval_state.equality)
qed

subsection \<open>Evaluating the examples\<close>

lemma compute_baselines_apply:
  "compute_baselines db now user_id days m =
     (let rows = window_rows db now user_id days
      in if rows = [] \<or> m \<notin> {''water_l'', ''gas_m3'', ''motion''} then None
         else Some \<lparr>mean = series_mean (column m rows),
                     std = (if 1 < length (column m rows)
                            then series_std 0 (column m rows) else 0)\<rparr>)"
  by (simp add: compute_baselines_def Let_def)

lemma quiet_user: "get_user quiet_store 1 = Some alice"
  by (simp add: get_user_def quiet_store_def alice_def)

lemma quiet_latest: "latest_reading quiet_store 1 = Some quiet_last"
  by (simp add: latest_reading_def quiet_store_def quiet_last_def mk_reading_def)

lemma quiet_rows: "window_rows quiet_store now0 1 14 = readings quiet_store"
  by (simp add: window_rows_def quiet_store_def quiet_last_def mk_reading_def now0_def
      timedelta_days_def)

lemma quiet_baselines:
  "compute_baselines quiet_store now0 1 14 ''motion'' = Some \<lparr>mean = 1/2, std = 1/2\<rparr>"
  "compute_baselines quiet_store now0 1 14 ''water_l'' = Some \<lparr>mean = 0, std = 0\<rparr>"
  "compute_baselines quiet_store now0 1 14 ''gas_m3'' = Some \<lparr>mean = 0, std = 0\<rparr>"
  unfolding compute_baselines_apply quiet_rows
  by (simp_all add: column_def series_mean_def series_std_def quiet_store_def quiet_last_def
      mk_reading_def real_sqrt_divide power2_eq_square)

lemma quiet_distance: "distance_home alice quiet_last = 0"
  by (simp add: distance_home_def alice_def quiet_last_def mk_reading_def haversine_meridian
      radians_def)

lemma quiet_coords: "coords_truthy alice quiet_last"
  by (simp add: coords_truthy_def truthy_float_def alice_def quiet_last_def mk_reading_def)

lemma quiet_water: "water_check (compute_baselines quiet_store now0 1 14) quiet_last st = st"
  by (simp add: water_check_def has_std_def mean_or_0_def quiet_baselines quiet_last_def
      mk_reading_def)

lemma quiet_gas: "gas_check (compute_baselines quiet_store now0 1 14) quiet_last st = st"
  by (simp add: gas_check_def has_std_def mean_or_0_def quiet_baselines quiet_last_def
      mk_reading_def)

lemma quiet_motion:
  "motion_check (compute_baselines quiet_store now0 1 14) quiet_last st
   = append_detail motion_absent_text st"
  by (simp add: motion_check_def quiet_baselines quiet_last_def mk_reading_def)

lemma alice_radius: "radius_of alice = Some 300"
  by (simp add: radius_of_def alice_def)

lemma quiet_geofence: "geofence_check alice quiet_last st = Inr st"
  by (simp add: geofence_check_def quiet_coords quiet_distance alice_radius)

lemma motion_absent_has_anomaly_word: "contains motion_absent_text anomaly_word"
  by (simp add: motion_absent_text_def anomaly_word_def lit_def)

lemma quiet_composite:
  "composite_check alice quiet_last \<lparr>details = [motion_absent_text], high_risk = False\<rparr>
   = Inr \<lparr>details = [motion_absent_text], high_risk = True\<rparr>"
  by (simp add: composite_check_def quiet_coords quiet_distance
      motion_absent_has_anomaly_word alice_radius)

lemma quiet_evaluate:
  "evaluate alice quiet_last (compute_baselines quiet_store now0 1 14)
   = Inr \<lparr>details = [motion_absent_text], high_risk = True\<rparr>"
  by (simp add: evaluate_def quiet_water quiet_gas quiet_motion quiet_geofence
      append_detail_def quiet_composite)

lemma quiet_contacts:
  "truthy_str (email alice)" "truthy_str (phone alice)"
  "the (email alice) = lit [97, 64, 98]" "the (phone alice) = lit [48, 49, 48]"
  by (simp_all add: truthy_str_def alice_def lit_def)

subsection \<open>The composite rule\<close>

text \<open>
  C1. The claim fails on the code: the motion findings carry the word the composite rule
  searches for. Alice is at home, has used no water and no gas, and is still after an
  active reading: the only finding is the motion finding, and the alert is recorded with
  the level HIGH.
\<close>

theorem motion_finding_alone_escalates:
  "evaluate alice quiet_last (compute_baselines quiet_store now0 1 14)
     = Inr \<lparr>details = [motion_absent_text], high_risk = True\<rparr>
   \<and> check_latest_for_user quiet_store now0 1
     = Inr \<lparr>users = [alice], readings = readings quiet_store,
            alerts = [\<lparr>a_user_id = 1, a_timestamp = now0,
                        alert_type = lit [72, 73, 71, 72] @ level_suffix,
                        a_details = motion_absent_text,
                        sent_to = lit [97, 64, 98, 44, 48, 49, 48]\<rparr>],
            outbox = [Email (lit [97, 64, 98])
                        (subject_prefix @ lit [72, 73, 71, 72] @ level_suffix)
                        motion_absent_text,
                      Sms (lit [48, 49, 48]) motion_absent_text]\<rparr>"
proof -
  have "check_latest_for_user quiet_store now0 1
        = Inr (dispatch quiet_store now0 1 [motion_absent_text] True)"
    by (simp add: check_latest_for_user_def quiet_user quiet_latest quiet_evaluate)
  also have "dispatch quiet_store now0 1 [motion_absent_text] True
        = record_and_send_alert quiet_store now0 1 (lit [72, 73, 71, 72] @ level_suffix)
            motion_absent_text"
    by (simp add: dispatch_def level_of_def)
  also have "\<dots> = \<lparr>users = [alice], readings = readings quiet_store,
            alerts = [\<lparr>a_user_id = 1, a_timestamp = now0,
                        alert_type = lit [72, 73, 71, 72] @ level_suffix,
                        a_details = motion_absent_text,
                        sent_to = lit [97, 64, 98, 44, 48, 49, 48]\<rparr>],
            outbox = [Email (lit [97, 64, 98])
                        (subject_prefix @ lit [72, 73, 71, 72] @ level_suffix)
                        motion_absent_text,
                      Sms (lit [48, 49, 48]) motion_absent_text]\<rparr>"
    unfolding record_and_send_alert_def quiet_user Let_def
    by (simp add: quiet_contacts) (simp add: quiet_store_def lit_def)
  finally show ?thesis
    by (simp add: quiet_evaluate)
qed

subsection \<open>Dispatch\<close>

lemma record_and_send_alert_fields:
  "users (record_and_send_alert db now user_id atype dtl) = users db"
  "readings (record_and_send_alert db now user_id atype dtl) = readings db"
  by (simp_all add: record_and_send_alert_def Let_def)

lemma record_and_send_alert_outbox:
  "outbox (record_and_send_alert db now user_id atype dtl)
   = outbox db
     @ (case get_user db user_id of
          None \<Rightarrow> []
        | Some u \<Rightarrow>
            (if truthy_str (email u) then [Email (the (email u)) (subject_prefix @ atype) dtl]
             else [])
            @ (if truthy_str (phone u) then [Sms (the (phone u)) dtl] else []))"
  by (simp add: record_and_send_alert_def Let_def split: option.splits)

lemma record_and_send_alert_alerts:
  "alerts (record_and_send_alert db now user_id atype dtl)
   = alerts db
     @ [\<lparr>a_user_id = user_id, a_timestamp = now, alert_type = atype, a_details = dtl,
          sent_to = join (lit [44])
            (map recipient
               (drop (length (outbox db))
                  (outbox (record_and_send_alert db now user_id atype dtl))))\<rparr>]"
  unfolding record_and_send_alert_outbox
  by (simp add: record_and_send_alert_def Let_def split: option.splits)

text \<open>
  C9. A dispatch with at least one finding appends exactly one alert row: its type is the
  level, HIGH when the risk flag is set and LOW when it is not, followed by the fixed
  suffix; its details are the findings joined with a semicolon and a space; its recipient
  list is the comma-joined recipients of the notifications this dispatch sent, which are
  the e-mail to a non-empty address and then the text message to a non-empty phone
  number. Subjects and readings are untouched. When the subject is not in the store, or
  has neither, nothing is sent and the row is appended all the same, with an empty
  recipient list.
\<close>

theorem dispatch_records_alert:
  "ds \<noteq> [] \<Longrightarrow>
   alerts (dispatch db now user_id ds hr)
     = alerts db
       @ [\<lparr>a_user_id = user_id, a_timestamp = now,
            alert_type = (if hr then lit [72, 73, 71, 72] else lit [76, 79, 87]) @ level_suffix,
            a_details = join (lit [59, 32]) ds,
            sent_to = join (lit [44])
              (map recipient
                 (drop (length (outbox db)) (outbox (dispatch db now user_id ds hr))))\<rparr>]
   \<and> outbox (dispatch db now user_id ds hr)
     = outbox db
       @ (case get_user db user_id of
            None \<Rightarrow> []
          | Some u \<Rightarrow>
              (if truthy_str (email u)
               then [Email (the (email u))
                       (subject_prefix
                        @ (if hr then lit [72, 73, 71, 72] else lit [76, 79, 87]) @ level_suffix)
                       (join (lit [59, 32]) ds)]
               else [])
              @ (if truthy_str (phone u) then [Sms (the (phone u)) (join (lit [59, 32]) ds)]
                 else []))
   \<and> users (dispatch db now user_id ds hr) = users db
   \<and> readings (dispatch db now user_id ds hr) = readings db"
  by (simp add: dispatch_def level_of_def Let_def record_and_send_alert_fields
      record_and_send_alert_alerts record_and_send_alert_outbox)

theorem dispatch_records_alert_witness:
  "alerts (dispatch quiet_store now0 1 [motion_absent_text, motion_unexpected_text] False)
     = [\<lparr>a_user_id = 1, a_timestamp = now0, alert_type = lit [76, 79, 87] @ level_suffix,
         a_details = motion_absent_text @ lit [59, 32] @ motion_unexpected_text,
         sent_to = lit [97, 64, 98, 44, 48, 49, 48]\<rparr>]
   \<and> alerts (dispatch quiet_store now0 7 [motion_absent_text] True)
     = [\<lparr>a_user_id = 7, a_timestamp = now0, alert_type = lit [72, 73, 71, 72] @ level_suffix,
         a_details = motion_absent_text, sent_to = []\<rparr>]
   \<and> outbox (dispatch quiet_store now0 7 [motion_absent_text] True) = []"
proof -
  have u: "get_user quiet_store 7 = None"
    by (simp add: get_user_def quiet_store_def alice_def)
  have e: "alerts quiet_store = []" "outbox quiet_store = []"
    by (simp_all add: quiet_store_def)
  have a: "alerts (dispatch quiet_store now0 1 [motion_absent_text, motion_unexpected_text] False)
     = [\<lparr>a_user_id = 1, a_timestamp = now0, alert_type = lit [76, 79, 87] @ level_suffix,
         a_details = motion_absent_text @ lit [59, 32] @ motion_unexpected_text,
         sent_to = lit [97, 64, 98, 44, 48, 49, 48]\<rparr>]"
    using dispatch_records_alert
      [of "[motion_absent_text, motion_unexpected_text]" quiet_store now0 1 False]
    by (simp add: e quiet_user quiet_contacts lit_def)
  have b: "alerts (dispatch quiet_store now0 7 [motion_absent_text] True)
     = [\<lparr>a_user_id = 7, a_timestamp = now0, alert_type = lit [72, 73, 71, 72] @ level_suffix,
         a_details = motion_absent_text, sent_to = []\<rparr>]
   \<and> outbox (dispatch quiet_store now0 7 [motion_absent_text] True) = []"
    using dispatch_records_alert [of "[motion_absent_text]" quiet_store now0 7 True]
    by (simp add: e u)
  from a b show ?thesis
    by simp
qed

text \<open>
  C6. An alert row is created if and only if there is a finding. For a dispatch, with any
  findings and any risk flag: the alerts change exactly when the findings are not empty,
  and then by one row. For \<^verbatim>\<open>check_latest_for_user\<close>: when it returns, the alerts have
  changed exactly when the subject and a latest reading exist and the evaluation ended
  with a non-empty list of findings; the new row is then the only one added, and its
  details are those findings joined.
\<close>

theorem alert_iff_findings:
  "(alerts (dispatch db now user_id ds hr) \<noteq> alerts db) = (ds \<noteq> [])
   \<and> length (alerts (dispatch db now user_id ds hr))
       = length (alerts db) + (if ds = [] then 0 else 1)
   \<and> (case check_latest_for_user db now user_id of
         Inl e \<Rightarrow> True
       | Inr db' \<Rightarrow>
           (alerts db' \<noteq> alerts db)
             = (\<exists>u rd st. get_user db user_id = Some u \<and> latest_reading db user_id = Some rd
                  \<and> evaluate u rd (compute_baselines db now user_id 14) = Inr st
                  \<and> details st \<noteq> []
                  \<and> butlast (alerts db') = alerts db
                  \<and> a_details (last (alerts db')) = join (lit [59, 32]) (details st)))"
proof -
  have d: "(alerts (dispatch db now user_id ds hr) \<noteq> alerts db) = (ds \<noteq> [])"
    "length (alerts (dispatch db now user_id ds hr))
       = length (alerts db) + (if ds = [] then 0 else 1)"
    "ds \<noteq> [] \<Longrightarrow> butlast (alerts (dispatch db now user_id ds hr)) = alerts db"
    "ds \<noteq> [] \<Longrightarrow> a_details (last (alerts (dispatch db now user_id ds hr)))
        = join (lit [59, 32]) ds"
    for ds hr
    by (simp_all add: dispatch_def Let_def record_and_send_alert_alerts)
  show ?thesis
    by (auto simp: check_latest_for_user_def d split: option.splits sum.splits)
qed

theorem alert_iff_findings_witness:
  "length (alerts (dispatch quiet_store now0 1 [motion_absent_text] True)) = 1
   \<and> alerts (dispatch quiet_store now0 1 [] True) = []
   \<and> check_latest_for_user quiet_store now0 1
     = Inr (dispatch quiet_store now0 1 [motion_absent_text] True)"
proof -
  have e: "alerts quiet_store = []"
    by (simp add: quiet_store_def)
  have c: "check_latest_for_user quiet_store now0 1
        = Inr (dispatch quiet_store now0 1 [motion_absent_text] True)"
    by (simp add: check_latest_for_user_def quiet_user quiet_latest quiet_evaluate)
  show ?thesis
    using alert_iff_findings [of quiet_store now0 1 "[motion_absent_text]" True]
      alert_iff_findings [of quiet_store now0 1 "[]" True]
    by (simp add: e c)
qed

subsection \<open>Baselines\<close>

lemma series_mean_eq: "series_mean xs = arithmetic_mean xs"
  by (simp add: series_mean_def arithmetic_mean_def)

lemma series_std_eq: "series_std 0 xs = population_std xs"
  by (simp add: series_std_def population_std_def series_mean_eq power2_commute)

lemma population_std_single: "length xs = 1 \<Longrightarrow> population_std xs = 0"
  by (cases xs) (simp_all add: population_std_def arithmetic_mean_def)

lemma metric_std_eq:
  "xs \<noteq> [] \<Longrightarrow> (if 1 < length xs then series_std 0 xs else 0) = population_std xs"
  by (cases xs) (auto simp: series_std_eq population_std_single)

lemma compute_baselines_population:
  assumes "window_rows db now user_id days \<noteq> []"
    and "m \<in> {''water_l'', ''gas_m3'', ''motion''}"
  shows "compute_baselines db now user_id days m
         = Some \<lparr>mean = arithmetic_mean (column m (window_rows db now user_id days)),
                 std = population_std (column m (window_rows db now user_id days))\<rparr>"
proof -
  let ?xs = "column m (window_rows db now user_id days)"
  have ne: "?xs \<noteq> []"
    using assms(1) by (simp add: column_def)
  have "compute_baselines db now user_id days m
        = Some \<lparr>mean = series_mean ?xs,
                 std = (if 1 < length ?xs then series_std 0 ?xs else 0)\<rparr>"
    using assms by (auto simp: compute_baselines_apply Let_def)
  then show ?thesis
    by (simp only: metric_std_eq [OF ne] series_mean_eq)
qed

text \<open>
  C10. When the subject has at least one reading in the window, \<^verbatim>\<open>compute_baselines\<close>
  has exactly the keys water_l, gas_m3 and motion, and gives for each the arithmetic mean
  of the window's values and their population standard deviation (the sum of squared
  distances to the mean divided by the number of samples, under a root). With fewer than
  two samples each standard deviation is 0.
\<close>

theorem baselines_mean_and_population_std:
  "window_rows db now user_id days \<noteq> [] \<Longrightarrow>
   compute_baselines db now user_id days ''water_l''
     = Some \<lparr>mean = arithmetic_mean (map water_l (window_rows db now user_id days)),
             std = population_std (map water_l (window_rows db now user_id days))\<rparr>
   \<and> compute_baselines db now user_id days ''gas_m3''
     = Some \<lparr>mean = arithmetic_mean (map gas_m3 (window_rows db now user_id days)),
             std = population_std (map gas_m3 (window_rows db now user_id days))\<rparr>
   \<and> compute_baselines db now user_id days ''motion''
     = Some \<lparr>mean = arithmetic_mean
                      (map (\<lambda>r. real_of_int (motion r)) (window_rows db now user_id days)),
             std = population_std
                     (map (\<lambda>r. real_of_int (motion r)) (window_rows db now user_id days))\<rparr>
   \<and> dom (compute_baselines db now user_id days) = {''water_l'', ''gas_m3'', ''motion''}
   \<and> (length (window_rows db now user_id days) < 2 \<longrightarrow>
        std (the (compute_baselines db now user_id days ''water_l'')) = 0
        \<and> std (the (compute_baselines db now user_id days ''gas_m3'')) = 0
        \<and> std (the (compute_baselines db now user_id days ''motion'')) = 0)"
proof -
  assume rows: "window_rows db now user_id days \<noteq> []"
  let ?rows = "window_rows db now user_id days"
  have w: "column ''water_l'' ?rows = map water_l ?rows"
    and g: "column ''gas_m3'' ?rows = map gas_m3 ?rows"
    and m: "column ''motion'' ?rows = map (\<lambda>r. real_of_int (motion r)) ?rows"
    by (simp_all add: column_def)
  have bw: "compute_baselines db now user_id days ''water_l''
     = Some \<lparr>mean = arithmetic_mean (map water_l ?rows),
             std = population_std (map water_l ?rows)\<rparr>"
    using compute_baselines_population [OF rows, of "''water_l''"] by (simp add: w)
  have bg: "compute_baselines db now user_id days ''gas_m3''
     = Some \<lparr>mean = arithmetic_mean (map gas_m3 ?rows),
             std = population_std (map gas_m3 ?rows)\<rparr>"
    using compute_baselines_population [OF rows, of "''gas_m3''"] by (simp add: g)
  have bm: "compute_baselines db now user_id days ''motion''
     = Some \<lparr>mean = arithmetic_mean (map (\<lambda>r. real_of_int (motion r)) ?rows),
             std = population_std (map (\<lambda>r. real_of_int (motion r)) ?rows)\<rparr>"
    using compute_baselines_population [OF rows, of "''motion''"] by (simp add: m)
  have d: "dom (compute_baselines db now user_id days) = {''water_l'', ''gas_m3'', ''motion''}"
    using rows by (auto simp: dom_def compute_baselines_apply Let_def)
  have one: "length ?rows < 2 \<Longrightarrow> length ?rows = 1"
    using rows by (cases ?rows) auto
  have small: "length ?rows < 2 \<Longrightarrow> population_std (map f ?rows) = 0" for f
    using one by (intro population_std_single) simp
  show ?thesis
    using d small by (simp add: bw bg bm)
qed

lemma pair_rows:
  "window_rows pair_store now0 1 14
   = [mk_reading 1 1 1641600000000 None None 1 2 0, mk_reading 2 1 1648800000000 None None 3 2 1]"
  by (simp add: window_rows_def pair_store_def stale_last_def mk_reading_def now0_def
      timedelta_days_def)

lemma meridian_rows: "window_rows meridian_store now0 2 14 = [meridian_last]"
  by (simp add: window_rows_def meridian_store_def meridian_last_def mk_reading_def now0_def
      timedelta_days_def)

theorem baselines_mean_and_population_std_witness:
  "compute_baselines pair_store now0 1 14 ''water_l'' = Some \<lparr>mean = 2, std = 1\<rparr>
   \<and> compute_baselines pair_store now0 1 14 ''gas_m3'' = Some \<lparr>mean = 2, std = 0\<rparr>
   \<and> compute_baselines pair_store now0 1 14 ''motion'' = Some \<lparr>mean = 1 / 2, std = 1 / 2\<rparr>
   \<and> std (the (compute_baselines meridian_store now0 2 14 ''motion'')) = 0"
proof -
  have a: "compute_baselines pair_store now0 1 14 ''water_l'' = Some \<lparr>mean = 2, std = 1\<rparr>
   \<and> compute_baselines pair_store now0 1 14 ''gas_m3'' = Some \<lparr>mean = 2, std = 0\<rparr>
   \<and> compute_baselines pair_store now0 1 14 ''motion'' = Some \<lparr>mean = 1 / 2, std = 1 / 2\<rparr>"
    using baselines_mean_and_population_std [of pair_store now0 1 14]
    unfolding pair_rows
    by (simp add: mk_reading_def arithmetic_mean_def population_std_def power2_eq_square
        real_sqrt_divide)
  have ne: "window_rows meridian_store now0 2 14 \<noteq> []"
    and lt: "length (window_rows meridian_store now0 2 14) < 2"
    by (simp_all add: meridian_rows)
  have b: "std (the (compute_baselines meridian_store now0 2 14 ''motion'')) = 0"
    using baselines_mean_and_population_std [OF ne] lt by blast
  from a b show ?thesis
    by simp
qed

subsection \<open>No reading in the window\<close>

lemma compute_baselines_empty:
  "window_rows db now user_id days = [] \<Longrightarrow> compute_baselines db now user_id days = Map.empty"
  by (simp add: compute_baselines_def)

lemma water_check_no_baseline:
  "water_check Map.empty rd st
   = (if 5 < water_l rd
      then (append_detail (water_spike_text (water_l rd)) st)\<lparr>high_risk := True\<rparr> else st)"
  by (simp add: water_check_def has_std_def mean_or_0_def)

lemma gas_check_no_baseline:
  "gas_check Map.empty rd st
   = (if 0.1 < gas_m3 rd
      then (append_detail (gas_spike_text (gas_m3 rd)) st)\<lparr>high_risk := True\<rparr> else st)"
  by (simp add: gas_check_def has_std_def mean_or_0_def)






subsection \<open>The sweep\<close>

lemma sweep_append:
  "sweep db now (us1 @ us2)
   = (case sweep db now us1 of
        (db', None) \<Rightarrow> sweep db' now us2
      | (db', Some e) \<Rightarrow> (db', Some e))"
  by (induction us1 arbitrary: db) (auto split: sum.splits)

lemma erin_geofence: "geofence_check erin erin_last st = Inl TypeError"
  by (simp add: geofence_check_def radius_of_def coords_truthy_def truthy_float_def erin_def
      erin_last_def mk_reading_def)

lemma erin_evaluate: "evaluate erin erin_last baselines = Inl TypeError"
  by (simp add: evaluate_def erin_geofence)

lemma sweep_users:
  "get_user sweep_store 1 = Some erin" "get_user sweep_store 2 = Some frank"
  by (simp_all add: get_user_def sweep_store_def erin_def frank_def)

lemma sweep_latest:
  "latest_reading sweep_store 1 = Some erin_last"
  "latest_reading sweep_store 2 = Some frank_last"
  by (simp_all add: latest_reading_def sweep_store_def erin_last_def frank_last_def
      mk_reading_def)

lemma frank_rows: "window_rows sweep_store now0 2 14 = []"
  by (simp add: window_rows_def sweep_store_def erin_last_def frank_last_def mk_reading_def
      now0_def timedelta_days_def)

lemma frank_values:
  "water_l frank_last = 6" "gas_m3 frank_last = 0" "lat frank_last = None"
  by (simp_all add: frank_last_def mk_reading_def)

lemma frank_evaluate:
  "evaluate frank frank_last (compute_baselines sweep_store now0 2 14)
   = Inr \<lparr>details = [water_spike_text 6], high_risk = True\<rparr>"
proof -
  have c: "\<not> coords_truthy frank frank_last"
    by (simp add: coords_truthy_def truthy_float_def frank_values)
  show ?thesis
    by (simp add: compute_baselines_empty frank_rows evaluate_def water_check_no_baseline
        gas_check_no_baseline motion_check_def geofence_check_def composite_check_def c
        frank_values append_detail_def)
qed

lemma sweep_check_erin: "check_latest_for_user sweep_store now0 1 = Inl TypeError"
  by (simp add: check_latest_for_user_def sweep_users sweep_latest erin_evaluate)

lemma sweep_check_frank:
  "check_latest_for_user sweep_store now0 2
   = Inr (dispatch sweep_store now0 2 [water_spike_text 6] True)"
  by (simp add: check_latest_for_user_def sweep_users sweep_latest frank_evaluate)

lemma sweep_dispatch_details:
  "map a_details (alerts (dispatch sweep_store now0 2 [water_spike_text 6] True))
   = [water_spike_text 6]"
  by (simp add: dispatch_def Let_def record_and_send_alert_alerts sweep_store_def)

lemma user_ids: "u_id erin = 1" "u_id frank = 2"
  by (simp_all add: erin_def frank_def)

lemma sweep_order: "sort_key u_id (users sweep_store) = [erin, frank]"
  by (simp add: sweep_store_def user_ids)

text \<open>
  C8, as the code has it. The sweep evaluates the subjects one after another in the order
  of their ids, each on the store the previous evaluation left. After subjects evaluated
  without an exception: if evaluating the next one raises, the sweep ends there with that
  exception and the store as it was, whatever subjects remain; if it returns, the sweep
  goes on with the remaining subjects on the store it returned.
\<close>

theorem sweep_ends_at_first_exception:
  "sort_key u_id (users db) = us1 @ u # us2 \<Longrightarrow> sweep db now us1 = (db1, None) \<Longrightarrow>
   (check_latest_for_user db1 now (u_id u) = Inl e
      \<longrightarrow> periodic_check_all db now = (db1, Some e))
   \<and> (check_latest_for_user db1 now (u_id u) = Inr db2
      \<longrightarrow> periodic_check_all db now = sweep db2 now us2)"
  by (simp add: periodic_check_all_def sweep_append)

theorem sweep_ends_at_first_exception_witness:
  "periodic_check_all sweep_store now0 = (sweep_store, Some TypeError)
   \<and> periodic_check_all quiet_store now0
     = (dispatch quiet_store now0 1 [motion_absent_text] True, None)"
proof -
  have o: "sort_key u_id (users sweep_store) = [] @ erin # [frank]"
    by (simp add: sweep_order)
  have o': "sort_key u_id (users quiet_store) = [] @ alice # []"
    by (simp add: quiet_store_def)
  have s: "sweep db now0 [] = (db, None)" for db
    by simp
  have c: "check_latest_for_user quiet_store now0 (u_id alice)
        = Inr (dispatch quiet_store now0 1 [motion_absent_text] True)"
    by (simp add: check_latest_for_user_def alice_def [THEN arg_cong, of u_id] quiet_user
        quiet_latest quiet_evaluate)
  show ?thesis
    using sweep_ends_at_first_exception [OF o s, of TypeError]
      sweep_ends_at_first_exception [OF o' s, of _
        "dispatch quiet_store now0 1 [motion_absent_text] True"]
    by (simp add: user_ids sweep_check_erin c)
qed

text \<open>
  The claim as stated fails. Erin has the id 1 and the radius "abc"; Frank has the id 2.
  Evaluated alone, Frank gets an alert for his six litres; in the sweep the evaluation of
  Erin comes first and raises \<^verbatim>\<open>TypeError\<close> at line 176, the sweep ends, and no alert is
  recorded for Frank.
\<close>

theorem sweep_isolation_counterexample:
  "users sweep_store = [erin, frank]
   \<and> u_id erin = 1 \<and> u_id frank = 2
   \<and> check_latest_for_user sweep_store now0 1 = Inl TypeError
   \<and> check_latest_for_user sweep_store now0 2
     = Inr (dispatch sweep_store now0 2 [water_spike_text 6] True)
   \<and> map a_details (alerts (dispatch sweep_store now0 2 [water_spike_text 6] True))
     = [water_spike_text 6]
   \<and> periodic_check_all sweep_store now0 = (sweep_store, Some TypeError)
   \<and> alerts (fst (periodic_check_all sweep_store now0)) = []"
proof -
  have u: "users sweep_store = [erin, frank]" and a: "alerts sweep_store = []"
    by (simp_all add: sweep_store_def)
  have p: "periodic_check_all sweep_store now0 = (sweep_store, Some TypeError)"
    by (simp add: periodic_check_all_def sweep_order user_ids sweep_check_erin)
  show ?thesis
    by (simp add: u a p user_ids sweep_check_erin sweep_check_frank sweep_dispatch_details)
qed

subsection \<open>Coordinates equal to zero\<close>

lemma meridian_values:
  "lat meridian_last = Some 51.6" "lon meridian_last = Some 0"
  "home_lat greenwich = Some 51.5" "home_lon greenwich = Some 0"
  "geofence_m greenwich = Some (IntVal 300)"
  "water_l meridian_last = 0" "gas_m3 meridian_last = 0" "motion meridian_last = 1"
  by (simp_all add: meridian_last_def greenwich_def mk_reading_def)

lemma meridian_baselines:
  "compute_baselines meridian_store now0 2 14 ''water_l'' = Some \<lparr>mean = 0, std = 0\<rparr>"
  "compute_baselines meridian_store now0 2 14 ''gas_m3'' = Some \<lparr>mean = 0, std = 0\<rparr>"
  "compute_baselines meridian_store now0 2 14 ''motion'' = Some \<lparr>mean = 1, std = 0\<rparr>"
  unfolding compute_baselines_apply meridian_rows
  by (simp_all add: column_def series_mean_def meridian_values)

text \<open>
  C5. The claim fails on the code: the guard tests the truth value of each coordinate,
  and 0.0 is false. A home on the prime meridian and a reading on it, 0.1 degrees to the
  north, have all four coordinates; the reading is more than 300 metres from the home;
  the evaluation has no finding and the store is left as it was.
\<close>

theorem zero_coordinate_skips_geofence:
  "lat meridian_last = Some 51.6 \<and> lon meridian_last = Some 0
   \<and> home_lat greenwich = Some 51.5 \<and> home_lon greenwich = Some 0
   \<and> geofence_m greenwich = Some (IntVal 300)
   \<and> 300 < distance_home greenwich meridian_last
   \<and> evaluate greenwich meridian_last (compute_baselines meridian_store now0 2 14)
     = Inr \<lparr>details = [], high_risk = False\<rparr>
   \<and> check_latest_for_user meridian_store now0 2 = Inr meridian_store"
proof -
  have d: "distance_home greenwich meridian_last = 6371000 * (pi / 1800)"
    by (simp add: distance_home_def meridian_values haversine_meridian radians_def)
  have far: "300 < distance_home greenwich meridian_last"
    unfolding d using pi_ge_two by simp
  have c: "\<not> coords_truthy greenwich meridian_last"
    by (simp add: coords_truthy_def truthy_float_def meridian_values)
  have e: "evaluate greenwich meridian_last (compute_baselines meridian_store now0 2 14)
     = Inr \<lparr>details = [], high_risk = False\<rparr>"
    by (simp add: evaluate_def water_check_def gas_check_def motion_check_def has_std_def
        mean_or_0_def meridian_baselines meridian_values geofence_check_def
        composite_check_def c)
  have u: "get_user meridian_store 2 = Some greenwich"
    by (simp add: get_user_def meridian_store_def greenwich_def)
  have l: "latest_reading meridian_store 2 = Some meridian_last"
    by (simp add: latest_reading_def meridian_store_def meridian_last_def mk_reading_def)
  have "check_latest_for_user meridian_store now0 2 = Inr meridian_store"
    by (simp add: check_latest_for_user_def u l e dispatch_def)
  with far e show ?thesis
    by (simp add: meridian_values)
qed

subsection \<open>Which findings the composite rule matches\<close>

lemma composite_check_rule:
  "coords_truthy u rd \<Longrightarrow> geofence_m u = Some (IntVal g) \<Longrightarrow>
   composite_check u rd st
   = Inr (st\<lparr>high_risk :=
            high_risk st
            \<or> (distance_home u rd \<le> real_of_int g
               \<and> list_ex (\<lambda>s. contains s spike_word \<or> contains s anomaly_word) (details st))\<rparr>)"
  by (cases st) (auto simp: composite_check_def radius_of_def Let_def)

lemma composite_check_skipped:
  "\<not> coords_truthy u rd \<Longrightarrow> composite_check u rd st = Inr st"
  by (simp add: composite_check_def)

lemma resource_texts_match:
  "contains (water_deviation_text w m z) anomaly_word"
  "contains (water_spike_text w) spike_word"
  "contains (gas_deviation_text g m z) anomaly_word"
  "contains (gas_spike_text g) spike_word"
  by (simp_all add: water_deviation_text_def water_spike_text_def gas_deviation_text_def
      gas_spike_text_def anomaly_word_def spike_word_def lit_def)

lemma motion_texts_match:
  "contains motion_absent_text anomaly_word"
  "contains motion_unexpected_text anomaly_word"
  by (simp_all add: motion_absent_text_def motion_unexpected_text_def anomaly_word_def lit_def)

lemma geofence_text_no_match:
  "\<not> contains (geofence_text d (IntVal g)) anomaly_word"
  "\<not> contains (geofence_text d (IntVal g)) spike_word"
  "\<not> contains (geofence_text d (FloatVal x)) anomaly_word"
  "\<not> contains (geofence_text d (FloatVal x)) spike_word"
  by (simp_all add: geofence_text_def anomaly_word_def spike_word_def lit_def)

end
